theory Spec2Isabelle
  imports Complex_Main "HOL-Library.Word"
begin

unbundle bit_operations_syntax

section \<open>Package ptp and package ip: the declarations used by ip/packets_fuji.go\<close>

type_synonym OperationCode = "16 word"
type_synonym OperationResponseCode = "16 word"
type_synonym TransactionID = "32 word"
type_synonym SessionID = "32 word"
type_synonym DevicePropCode = "16 word"
type_synonym ProtocolVersion = "32 word"
type_synonym FailReason = "32 word"

text \<open>A Go \<^verbatim>\<open>error\<close> is modelled by its message; \<^verbatim>\<open>nil\<close> is \<open>None\<close>.\<close>

type_synonym error = string

text \<open>
  ip/packets_fuji.go refers to constants and one function that are declared in package ptp
  and in other files of package ip. Their values are not needed by any property below, so they
  are a parameter of every definition that mentions them: \<open>RC_OK\<close>, \<open>RC_SessionAlreadyOpen\<close>,
  the four operation codes and \<open>OperationResponseCodeAsString\<close> belong to package ptp, and
  \<open>DP_NoDataOrDataIn\<close> and \<open>DP_DataOut\<close> are the two data phases of package ip (converted
  with \<^verbatim>\<open>uint16(...)\<close> where the source uses them).
\<close>

record ptp_decls =
  RC_OK :: OperationResponseCode
  RC_SessionAlreadyOpen :: OperationResponseCode
  OC_OpenSession :: OperationCode
  OC_SetDevicePropValue :: OperationCode
  OC_GetDevicePropValue :: OperationCode
  OC_InitiateOpenCapture :: OperationCode
  DP_NoDataOrDataIn :: "32 word"
  DP_DataOut :: "32 word"
  OperationResponseCodeAsString :: "OperationResponseCode \<Rightarrow> string"

subsection \<open>The constants of ip/packets_fuji.go\<close>

definition DPC_Fuji_UseInitSequence :: DevicePropCode where
  "DPC_Fuji_UseInitSequence = 0xDF01"

definition DPC_Fuji_AppVersion :: DevicePropCode where
  "DPC_Fuji_AppVersion = 0xDF24"

definition FR_Fuji_DeviceBusy :: FailReason where
  "FR_Fuji_DeviceBusy = 0x00002019"

definition FR_Fuji_InvalidParameter :: FailReason where
  "FR_Fuji_InvalidParameter = 0x0000201D"

definition OC_Fuji_GetDeviceInfo :: OperationCode where
  "OC_Fuji_GetDeviceInfo = 0x902B"

definition PM_Fuji_InitSequence :: "32 word" where
  "PM_Fuji_InitSequence = 0x00000005"

definition PM_Fuji_AppVersion :: "32 word" where
  "PM_Fuji_AppVersion = 0x00020001"

definition PV_Fuji :: ProtocolVersion where
  "PV_Fuji = 0x8F53E4F2"

definition RC_Fuji_DevicePropValue :: OperationResponseCode where
  "RC_Fuji_DevicePropValue = 0x1015"

subsection \<open>The packets\<close>

text \<open>\<^verbatim>\<open>uuid.UUID\<close> is \<^verbatim>\<open>[16]byte\<close>; a Go string is kept as its bytes.\<close>

type_synonym UUID = "8 word list"

record FujiInitCommandRequestPacket =
  ProtocolVersion :: ProtocolVersion
  GUID :: UUID
  FriendlyName :: string

record FujiOperationRequestPacket =
  DataPhaseInfo :: "16 word"
  OperationCode :: OperationCode
  TransactionID :: TransactionID
  Parameter1 :: "32 word"
  Parameter2 :: "32 word"
  Parameter3 :: "32 word"
  Parameter4 :: "32 word"
  Parameter5 :: "32 word"

text \<open>
  The two response structs. Record fields share one name space, so the fields
  \<^verbatim>\<open>TransactionID\<close> and \<^verbatim>\<open>Parameter1\<close> of the responses are written \<open>RespTransactionID\<close> and
  \<open>RespParameter1\<close>; \<^verbatim>\<open>FujiOperationResponsePacketOne\<close> repeats the three fields of
  \<^verbatim>\<open>FujiOperationResponsePacket\<close> and adds \<^verbatim>\<open>Parameter1\<close>, which is a record extension.
\<close>

record FujiOperationResponsePacket =
  DataPhase :: "16 word"
  OperationResponseCode :: OperationResponseCode
  RespTransactionID :: TransactionID

record FujiOperationResponsePacketOne = FujiOperationResponsePacket +
  RespParameter1 :: "32 word"

definition NewFujiInitCommandRequestPacket :: "UUID \<Rightarrow> string \<Rightarrow> FujiInitCommandRequestPacket" where
  "NewFujiInitCommandRequestPacket guid friendlyName =
     \<lparr>ProtocolVersion = PV_Fuji, GUID = guid, FriendlyName = friendlyName\<rparr>"

definition GetProtocolVersion :: "FujiInitCommandRequestPacket \<Rightarrow> ProtocolVersion" where
  "GetProtocolVersion ficrp = ProtocolVersion ficrp"

definition NewFujiOpenSessionCommand ::
  "ptp_decls \<Rightarrow> TransactionID \<Rightarrow> SessionID \<Rightarrow> FujiOperationRequestPacket" where
  "NewFujiOpenSessionCommand K tid sid =
     \<lparr>DataPhaseInfo = ucast (DP_NoDataOrDataIn K), OperationCode = OC_OpenSession K,
      TransactionID = tid, Parameter1 = sid,
      Parameter2 = 0, Parameter3 = 0, Parameter4 = 0, Parameter5 = 0\<rparr>"

text \<open>\<^verbatim>\<open>func (forp *FujiOperationResponsePacket) WasSuccessfull() bool\<close>\<close>

definition WasSuccessfull :: "ptp_decls \<Rightarrow> FujiOperationResponsePacket \<Rightarrow> bool" where
  "WasSuccessfull K forp \<longleftrightarrow>
     OperationResponseCode forp = RC_OK K \<or>
     OperationResponseCode forp = RC_SessionAlreadyOpen K \<or>
     OperationResponseCode forp = RC_Fuji_DevicePropValue"

definition ReasonAsError :: "ptp_decls \<Rightarrow> FujiOperationResponsePacket \<Rightarrow> error" where
  "ReasonAsError K forp = OperationResponseCodeAsString K (OperationResponseCode forp)"

text \<open>\<^verbatim>\<open>func (forp *FujiOperationResponsePacketOne) WasSuccessfull() bool\<close>\<close>

definition WasSuccessfullOne :: "ptp_decls \<Rightarrow> FujiOperationResponsePacketOne \<Rightarrow> bool" where
  "WasSuccessfullOne K forp \<longleftrightarrow>
     OperationResponseCode forp = RC_OK K \<or>
     OperationResponseCode forp = RC_SessionAlreadyOpen K \<or>
     OperationResponseCode forp = RC_Fuji_DevicePropValue"

definition ReasonAsErrorOne :: "ptp_decls \<Rightarrow> FujiOperationResponsePacketOne \<Rightarrow> error" where
  "ReasonAsErrorOne K forp = OperationResponseCodeAsString K (OperationResponseCode forp)"

subsection \<open>Serialising the init command request\<close>

text \<open>
  Modelled from the spec: \<^verbatim>\<open>ipInternal.MarshalLittleEndian\<close> (package ip/internal) is not
  among the sources. The spec's wire codec writes the fields of a packet in declared order:
  every integer little-endian, an identifier as its 16 raw bytes verbatim, a string as
  UTF-16LE code units followed by a terminating U+0000 code unit. The transcoding of a Go
  string into UTF-16 code units is the Go library's and is the parameter \<open>utf16\<close>.
\<close>

definition le16 :: "16 word \<Rightarrow> 8 word list" where
  "le16 w = [ucast w, ucast (drop_bit 8 w)]"

definition le32 :: "32 word \<Rightarrow> 8 word list" where
  "le32 w = [ucast w, ucast (drop_bit 8 w), ucast (drop_bit 16 w), ucast (drop_bit 24 w)]"

definition MarshalString :: "(string \<Rightarrow> 16 word list) \<Rightarrow> string \<Rightarrow> 8 word list" where
  "MarshalString utf16 s = concat (map le16 (utf16 s @ [0]))"

definition MarshalLittleEndian ::
  "(string \<Rightarrow> 16 word list) \<Rightarrow> FujiInitCommandRequestPacket \<Rightarrow> 8 word list" where
  "MarshalLittleEndian utf16 ficrp =
     le32 (ProtocolVersion ficrp) @ GUID ficrp @ MarshalString utf16 (FriendlyName ficrp)"

text \<open>\<^verbatim>\<open>func (ficrp *FujiInitCommandRequestPacket) Payload() []byte\<close>\<close>

definition Payload ::
  "(string \<Rightarrow> 16 word list) \<Rightarrow> FujiInitCommandRequestPacket \<Rightarrow> 8 word list" where
  "Payload utf16 ficrp = MarshalLittleEndian utf16 ficrp"

text \<open>
  The canonical form of a \<^verbatim>\<open>uuid.UUID\<close> (github.com/google/uuid, \<^verbatim>\<open>String\<close>): the sixteen
  bytes in order as lower-case hexadecimal, in groups of 4, 2, 2, 2 and 6 bytes.
\<close>

definition hexdigit :: "nat \<Rightarrow> char" where
  "hexdigit n = ''0123456789abcdef'' ! (n mod 16)"

definition hexbyte :: "8 word \<Rightarrow> string" where
  "hexbyte b = [hexdigit (unat b div 16), hexdigit (unat b mod 16)]"

definition hexbytes :: "8 word list \<Rightarrow> string" where
  "hexbytes bs = concat (map hexbyte bs)"

definition uuid_String :: "UUID \<Rightarrow> string" where
  "uuid_String u =
     hexbytes (take 4 u) @ ''-'' @ hexbytes (take 2 (drop 4 u)) @ ''-'' @
     hexbytes (take 2 (drop 6 u)) @ ''-'' @ hexbytes (take 2 (drop 8 u)) @ ''-'' @
     hexbytes (drop 10 u)"

definition example_GUID :: UUID where
  "example_GUID =
     [0xAD, 0xA5, 0x48, 0x5D, 0x87, 0xB2, 0x7F, 0x0B, 0xD3, 0xD5, 0xDE, 0xD0, 0x02, 0x78, 0xA8, 0xC0]"

section \<open>The client and the Fuji initialisation sequence\<close>

text \<open>
  Modelled from the spec: the type \<^verbatim>\<open>Client\<close> and its methods \<^verbatim>\<open>TransactionId\<close>,
  \<^verbatim>\<open>incrementTransactionId\<close>, \<^verbatim>\<open>SendPacketToCmdDataConn\<close> and \<^verbatim>\<open>WaitForPacketFromCmdDataConn\<close>
  are declared in a file of package ip that is not among the sources. The spec's client owns
  the Command/Data and the Event connection and a 32-bit transaction identifier that is
  incremented by one; a send writes one framed packet or fails, a receive reads the fixed
  fields of the response variant the caller supplies or fails.

  The responder and the network are part of the state: \<open>writeResults\<close> is what the coming
  writes return (after the list, writes succeed) and \<open>incoming\<close> is what the coming reads
  find, an error or the next response of the responder (after the list, a read times out).
  Every write and every read appends one event to \<open>trace\<close>.
\<close>

datatype event =
    Sent FujiOperationRequestPacket
  | SendFailed FujiOperationRequestPacket error
  | Received FujiOperationResponsePacket
  | ReceivedOne FujiOperationResponsePacketOne
  | ReceiveFailed error

record Client =
  transactionId :: TransactionID
  commandDataConnOpen :: bool
  eventConnOpen :: bool
  writeResults :: "error option list"
  incoming :: "(error + FujiOperationResponsePacketOne) list"
  trace :: "event list"

definition TransactionId :: "Client \<Rightarrow> TransactionID" where
  "TransactionId c = transactionId c"

definition incrementTransactionId :: "Client \<Rightarrow> Client" where
  "incrementTransactionId c = c\<lparr>transactionId := transactionId c + 1\<rparr>"

definition read_timeout :: error where
  "read_timeout = ''i/o timeout''"

definition SendPacketToCmdDataConn ::
  "FujiOperationRequestPacket \<Rightarrow> Client \<Rightarrow> error option \<times> Client" where
  "SendPacketToCmdDataConn pkt c =
     (case writeResults c of
        [] \<Rightarrow> (None, c\<lparr>trace := trace c @ [Sent pkt]\<rparr>)
      | None # ws \<Rightarrow> (None, c\<lparr>writeResults := ws, trace := trace c @ [Sent pkt]\<rparr>)
      | Some err # ws \<Rightarrow>
          (Some err, c\<lparr>writeResults := ws, trace := trace c @ [SendFailed pkt err]\<rparr>))"

text \<open>Reading into a \<^verbatim>\<open>*FujiOperationResponsePacket\<close>: the three fixed fields.\<close>

definition WaitForPacketFromCmdDataConn ::
  "Client \<Rightarrow> (error + FujiOperationResponsePacket) \<times> Client" where
  "WaitForPacketFromCmdDataConn c =
     (case incoming c of
        [] \<Rightarrow> (Inl read_timeout, c\<lparr>trace := trace c @ [ReceiveFailed read_timeout]\<rparr>)
      | Inl err # rs \<Rightarrow> (Inl err, c\<lparr>incoming := rs, trace := trace c @ [ReceiveFailed err]\<rparr>)
      | Inr r # rs \<Rightarrow>
          (Inr (FujiOperationResponsePacket.truncate r),
           c\<lparr>incoming := rs,
             trace := trace c @ [Received (FujiOperationResponsePacket.truncate r)]\<rparr>))"

text \<open>Reading into a \<^verbatim>\<open>*FujiOperationResponsePacketOne\<close>: the four fixed fields.\<close>

definition WaitForPacketFromCmdDataConnOne ::
  "Client \<Rightarrow> (error + FujiOperationResponsePacketOne) \<times> Client" where
  "WaitForPacketFromCmdDataConnOne c =
     (case incoming c of
        [] \<Rightarrow> (Inl read_timeout, c\<lparr>trace := trace c @ [ReceiveFailed read_timeout]\<rparr>)
      | Inl err # rs \<Rightarrow> (Inl err, c\<lparr>incoming := rs, trace := trace c @ [ReceiveFailed err]\<rparr>)
      | Inr r # rs \<Rightarrow> (Inr r, c\<lparr>incoming := rs, trace := trace c @ [ReceivedOne r]\<rparr>))"

text \<open>
  \<^verbatim>\<open>func FujiInitSequence(c *Client) error\<close>, in the five blocks that its log lines
  separate. The calls of \<^verbatim>\<open>log.Print\<close> and \<^verbatim>\<open>log.Printf\<close> are left out, and so is the byte
  slice \<^verbatim>\<open>res\<close>, which only they use.
\<close>

text \<open>Lines 221 to 240, "Opening a session...".\<close>

definition OpenSession_block :: "ptp_decls \<Rightarrow> Client \<Rightarrow> error option \<times> Client" where
  "OpenSession_block K c =
     (case SendPacketToCmdDataConn (NewFujiOpenSessionCommand K (TransactionId c) 0x00000001) c of
        (Some err, c) \<Rightarrow> (Some err, c)
      | (None, c) \<Rightarrow>
     (case WaitForPacketFromCmdDataConn c of
        (Inl err, c) \<Rightarrow> (Some err, c)
      | (Inr p, c) \<Rightarrow>
          if \<not> WasSuccessfull K p then (Some (ReasonAsError K p), c)
          else (None, incrementTransactionId c)))"

text \<open>Lines 242 to 276, "Setting correct init sequence number...".\<close>

definition UseInitSequence_block :: "ptp_decls \<Rightarrow> Client \<Rightarrow> error option \<times> Client" where
  "UseInitSequence_block K c =
     (case SendPacketToCmdDataConn
             \<lparr>DataPhaseInfo = ucast (DP_NoDataOrDataIn K), OperationCode = OC_SetDevicePropValue K,
              TransactionID = TransactionId c, Parameter1 = ucast DPC_Fuji_UseInitSequence,
              Parameter2 = 0, Parameter3 = 0, Parameter4 = 0, Parameter5 = 0\<rparr> c of
        (Some err, c) \<Rightarrow> (Some err, c)
      | (None, c) \<Rightarrow>
     (case SendPacketToCmdDataConn
             \<lparr>DataPhaseInfo = ucast (DP_DataOut K), OperationCode = OC_SetDevicePropValue K,
              TransactionID = TransactionId c, Parameter1 = PM_Fuji_InitSequence,
              Parameter2 = 0, Parameter3 = 0, Parameter4 = 0, Parameter5 = 0\<rparr> c of
        (Some err, c) \<Rightarrow> (Some err, c)
      | (None, c) \<Rightarrow>
     (case WaitForPacketFromCmdDataConn c of
        (Inl err, c) \<Rightarrow> (Some err, c)
      | (Inr p, c) \<Rightarrow>
          if \<not> WasSuccessfull K p then (Some (ReasonAsError K p), c)
          else (None, incrementTransactionId c))))"

text \<open>
  Lines 278 to 316, "Getting current minimum application version...". The block leaves the
  packet \<^verbatim>\<open>po\<close> to the next one.
\<close>

definition GetAppVersion_block ::
  "ptp_decls \<Rightarrow> Client \<Rightarrow> (error + FujiOperationResponsePacketOne) \<times> Client" where
  "GetAppVersion_block K c =
     (case SendPacketToCmdDataConn
             \<lparr>DataPhaseInfo = ucast (DP_NoDataOrDataIn K), OperationCode = OC_GetDevicePropValue K,
              TransactionID = TransactionId c, Parameter1 = ucast DPC_Fuji_AppVersion,
              Parameter2 = 0, Parameter3 = 0, Parameter4 = 0, Parameter5 = 0\<rparr> c of
        (Some err, c) \<Rightarrow> (Inl err, c)
      | (None, c) \<Rightarrow>
     (case WaitForPacketFromCmdDataConnOne c of
        (Inl err, c) \<Rightarrow> (Inl err, c)
      | (Inr po, c) \<Rightarrow>
          if \<not> WasSuccessfullOne K po then (Inl (ReasonAsErrorOne K po), c)
          else
     (case WaitForPacketFromCmdDataConn c of
        (Inl err, c) \<Rightarrow> (Inl err, c)
      | (Inr p, c) \<Rightarrow>
          if \<not> WasSuccessfull K p then (Inl (ReasonAsError K p), c)
          else (Inr po, incrementTransactionId c))))"

text \<open>Lines 318 to 351, "Acknowledging current 'other version'".\<close>

definition SetAppVersion_block ::
  "ptp_decls \<Rightarrow> FujiOperationResponsePacketOne \<Rightarrow> Client \<Rightarrow> error option \<times> Client" where
  "SetAppVersion_block K po c =
     (case SendPacketToCmdDataConn
             \<lparr>DataPhaseInfo = ucast (DP_NoDataOrDataIn K), OperationCode = OC_SetDevicePropValue K,
              TransactionID = TransactionId c, Parameter1 = ucast DPC_Fuji_AppVersion,
              Parameter2 = 0, Parameter3 = 0, Parameter4 = 0, Parameter5 = 0\<rparr> c of
        (Some err, c) \<Rightarrow> (Some err, c)
      | (None, c) \<Rightarrow>
     (case SendPacketToCmdDataConn
             \<lparr>DataPhaseInfo = ucast (DP_DataOut K), OperationCode = OC_SetDevicePropValue K,
              TransactionID = TransactionId c, Parameter1 = RespParameter1 po,
              Parameter2 = 0, Parameter3 = 0, Parameter4 = 0, Parameter5 = 0\<rparr> c of
        (Some err, c) \<Rightarrow> (Some err, c)
      | (None, c) \<Rightarrow>
     (case WaitForPacketFromCmdDataConn c of
        (Inl err, c) \<Rightarrow> (Some err, c)
      | (Inr p, c) \<Rightarrow>
          if \<not> WasSuccessfull K p then (Some (ReasonAsError K p), c)
          else (None, incrementTransactionId c))))"

text \<open>
  Lines 353 to 398, "Initiating open capture...". Lines 375 to 396 are one comment (it
  starts with \<^verbatim>\<open>c.incrementTransactionId()\<close> and the request of the device info), so the
  block returns \<^verbatim>\<open>nil\<close> right after the check of the response.
\<close>

definition InitiateOpenCapture_block :: "ptp_decls \<Rightarrow> Client \<Rightarrow> error option \<times> Client" where
  "InitiateOpenCapture_block K c =
     (case SendPacketToCmdDataConn
             \<lparr>DataPhaseInfo = ucast (DP_NoDataOrDataIn K), OperationCode = OC_InitiateOpenCapture K,
              TransactionID = TransactionId c, Parameter1 = 0,
              Parameter2 = 0, Parameter3 = 0, Parameter4 = 0, Parameter5 = 0\<rparr> c of
        (Some err, c) \<Rightarrow> (Some err, c)
      | (None, c) \<Rightarrow>
     (case WaitForPacketFromCmdDataConn c of
        (Inl err, c) \<Rightarrow> (Some err, c)
      | (Inr p, c) \<Rightarrow>
          if \<not> WasSuccessfull K p then (Some (ReasonAsError K p), c)
          else (None, c)))"

definition FujiInitSequence :: "ptp_decls \<Rightarrow> Client \<Rightarrow> error option \<times> Client" where
  "FujiInitSequence K c =
     (case OpenSession_block K c of
        (Some err, c) \<Rightarrow> (Some err, c)
      | (None, c) \<Rightarrow>
     (case UseInitSequence_block K c of
        (Some err, c) \<Rightarrow> (Some err, c)
      | (None, c) \<Rightarrow>
     (case GetAppVersion_block K c of
        (Inl err, c) \<Rightarrow> (Some err, c)
      | (Inr po, c) \<Rightarrow>
     (case SetAppVersion_block K po c of
        (Some err, c) \<Rightarrow> (Some err, c)
      | (None, c) \<Rightarrow> InitiateOpenCapture_block K c))))"

text \<open>
  Concrete values for the declarations of package ptp, used where a property is evaluated
  on an input: the codes of the PTP standard (ISO 15740) and a table of the names of the
  response codes that occur below.
\<close>

definition std_decls :: ptp_decls where
  "std_decls =
     \<lparr>RC_OK = 0x2001, RC_SessionAlreadyOpen = 0x201E,
      OC_OpenSession = 0x1002, OC_SetDevicePropValue = 0x1016,
      OC_GetDevicePropValue = 0x1015, OC_InitiateOpenCapture = 0x101C,
      DP_NoDataOrDataIn = 1, DP_DataOut = 2,
      OperationResponseCodeAsString =
        (\<lambda>rc. if rc = 0x2001 then ''OK''
              else if rc = 0x2019 then ''device busy''
              else if rc = 0x201E then ''session already open''
              else ''unknown'')\<rparr>"

definition response :: "OperationResponseCode \<Rightarrow> TransactionID \<Rightarrow> 32 word \<Rightarrow>
    error + FujiOperationResponsePacketOne" where
  "response rc tid par =
     Inr \<lparr>DataPhase = 0, OperationResponseCode = rc, RespTransactionID = tid,
          RespParameter1 = par\<rparr>"

text \<open>
  The responder of the handshake scenario: OK for OpenSession, OK for the init sequence,
  the minimum application version 0x00020001 with the code 0x1015 and the response that
  closes that request, OK for the echo, OK for InitiateOpenCapture. The client starts with
  the transaction identifier 0, so that the identifier is 1 once the session is open.
\<close>

definition scenario_client :: Client where
  "scenario_client =
     \<lparr>transactionId = 0, commandDataConnOpen = True, eventConnOpen = False,
      writeResults = [],
      incoming = [response 0x2001 0 0, response 0x2001 1 0, response 0x1015 2 0x00020001,
                  response 0x2001 2 0, response 0x2001 3 0, response 0x2001 4 0],
      trace = []\<rparr>"

text \<open>The responder that answers the init sequence number with 0x2019.\<close>

definition busy_client :: Client where
  "busy_client =
     \<lparr>transactionId = 0, commandDataConnOpen = True, eventConnOpen = False,
      writeResults = [],
      incoming = [response 0x2001 0 0, response 0x2019 1 0, response 0x2001 2 0],
      trace = []\<rparr>"

subsection \<open>Notions used to state the properties of the sequence\<close>

text \<open>
  The error that an event stands for: a response whose code is not a success, with the
  name of the code. Writes, failed reads and successful responses stand for none.
\<close>

definition failure_of :: "ptp_decls \<Rightarrow> event \<Rightarrow> error option" where
  "failure_of K e =
     (case e of
        Received p \<Rightarrow> if WasSuccessfull K p then None else Some (ReasonAsError K p)
      | ReceivedOne po \<Rightarrow> if WasSuccessfullOne K po then None else Some (ReasonAsErrorOne K po)
      | _ \<Rightarrow> None)"

text \<open>
  A list of events stops at its first unsuccessful response when such a response can only
  be the last event, and then \<open>r\<close> is its error.
\<close>

fun stops_at_failure :: "ptp_decls \<Rightarrow> error option \<Rightarrow> event list \<Rightarrow> bool" where
  "stops_at_failure K r [] = True"
| "stops_at_failure K r [e] = (failure_of K e = None \<or> failure_of K e = r)"
| "stops_at_failure K r (e # e' # es) = (failure_of K e = None \<and> stops_at_failure K r (e' # es))"

definition run :: "ptp_decls \<Rightarrow> Client \<Rightarrow> error option \<Rightarrow> Client \<Rightarrow> bool" where
  "run K c r c' \<longleftrightarrow>
     (\<exists>evs. trace c' = trace c @ evs \<and> stops_at_failure K r evs \<and>
        (r = None \<longrightarrow> list_all (\<lambda>e. failure_of K e = None) evs)) \<and>
     commandDataConnOpen c' = commandDataConnOpen c \<and> eventConnOpen c' = eventConnOpen c"

definition writes_succeed :: "Client \<Rightarrow> bool" where
  "writes_succeed c \<longleftrightarrow> list_all (\<lambda>w. w = None) (writeResults c)"

section \<open>Package viewfinder: the Fuji X-T1 widgets\<close>

text \<open>
  Modelled from the spec: the type \<^verbatim>\<open>Widget\<close> and its methods are declared in a file of
  package viewfinder that is not among the sources. The spec's widget has an origin in image
  coordinates, a pen position \<open>Dot\<close> in 26.6 fixed point, a current colour and a font face;
  \<^verbatim>\<open>ResetToOrigin\<close> restores \<open>Dot\<close> to the origin, \<^verbatim>\<open>ResetColour\<close> restores the default colour,
  \<^verbatim>\<open>SetColour\<close> sets the current colour, and \<^verbatim>\<open>DrawString\<close> draws at the pen in the current
  colour and advances the pen by the sum of the glyph widths. The image that the widget draws
  into is kept as the list \<open>drawn\<close> of the strings drawn so far, each with the pen position
  and the colour it was drawn with; \<open>faceWidth\<close> is the glyph width of the current face
  in pixels.
\<close>

type_synonym colour = "8 word \<times> 8 word \<times> 8 word"

record Widget =
  origin :: "int \<times> int"
  Dot :: "int \<times> int"
  colour :: colour
  defaultColour :: colour
  faceWidth :: int
  drawn :: "((int \<times> int) \<times> colour \<times> string) list"

definition ResetToOrigin :: "Widget \<Rightarrow> Widget" where
  "ResetToOrigin w = w\<lparr>Dot := (64 * fst (origin w), 64 * snd (origin w))\<rparr>"

definition ResetColour :: "Widget \<Rightarrow> Widget" where
  "ResetColour w = w\<lparr>colour := defaultColour w\<rparr>"

definition SetColour :: "8 word \<Rightarrow> 8 word \<Rightarrow> 8 word \<Rightarrow> Widget \<Rightarrow> Widget" where
  "SetColour r g b w = w\<lparr>colour := (r, g, b)\<rparr>"

definition DrawString :: "string \<Rightarrow> Widget \<Rightarrow> Widget" where
  "DrawString s w =
     w\<lparr>drawn := drawn w @ [(Dot w, colour w, s)],
       Dot := (fst (Dot w) + 64 * faceWidth w * int (length s), snd (Dot w))\<rparr>"

subsection \<open>The battery level\<close>

text \<open>
  The type \<^verbatim>\<open>ip.FujiBatteryLevel\<close> and its three constants are declared in a file of package
  ip that is not among the sources: the conversion of the \<^verbatim>\<open>int64\<close> and the constants
  are a parameter.
\<close>

record 'l battery_decls =
  FujiBatteryLevel :: "64 word \<Rightarrow> 'l"
  BAT_Fuji_3bOne :: 'l
  BAT_Fuji_3bTwo :: 'l
  BAT_Fuji_3bFull :: 'l

text \<open>
  \<^verbatim>\<open>func drawFujiBattery3Bars(w *Widget, val int64)\<close>. The cases of the switch are tried in
  order; without a match \<^verbatim>\<open>lvl\<close> stays the empty string.
\<close>

definition drawFujiBattery3Bars :: "'l battery_decls \<Rightarrow> Widget \<Rightarrow> 64 word \<Rightarrow> Widget" where
  "drawFujiBattery3Bars B w val =
     (let w = ResetToOrigin w;
          (w, lvl) =
            (if FujiBatteryLevel B val = BAT_Fuji_3bOne B then (SetColour 255 0 0 w, ''baU'')
             else if FujiBatteryLevel B val = BAT_Fuji_3bTwo B then (w, ''bCT'')
             else if FujiBatteryLevel B val = BAT_Fuji_3bFull B then (w, ''BAT'')
             else (w, []))
      in DrawString lvl w)"

text \<open>Levels for the evaluation on an input: a 16-bit level with the values 1, 2 and 3.\<close>

definition example_levels :: "16 word battery_decls" where
  "example_levels =
     \<lparr>FujiBatteryLevel = ucast, BAT_Fuji_3bOne = 1, BAT_Fuji_3bTwo = 2, BAT_Fuji_3bFull = 3\<rparr>"

text \<open>A widget as \<^verbatim>\<open>NewWhiteGlyphWidget\<close> leaves it: white, nothing drawn.\<close>

definition white_widget :: Widget where
  "white_widget =
     \<lparr>origin = (100, 50), Dot = (6400, 3200), colour = (255, 255, 255),
      defaultColour = (255, 255, 255), faceWidth = 6, drawn = []\<rparr>"

subsection \<open>The exposure bias compensation\<close>

text \<open>
  A \<^verbatim>\<open>float64\<close> is modelled by the rational number it denotes; every value that occurs
  is finite, and the sign of a zero is never looked at (\<^verbatim>\<open>math.Signbit\<close> is called on
  \<open>f \<noteq> 0\<close> only).

  \<open>float64_quotient n d\<close> is the \<^verbatim>\<open>float64\<close> division of the integers \<open>n\<close> and \<open>d\<close>, for
  \<open>0 < d\<close> and \<open>\<bar>n\<bar> < d * 2 ^ 53\<close>: the quotient rounded to 53 significant bits, to the
  nearest and to the even one of two nearest. \<open>norm_shift a t 0\<close> is the number of doublings
  that bring \<open>a\<close> to \<open>t\<close> or above, which scales the quotient into \<open>2 ^ 52 \<dots> 2 ^ 53\<close>.
\<close>

function norm_shift :: "int \<Rightarrow> int \<Rightarrow> nat \<Rightarrow> nat" where
  "norm_shift a t k = (if a \<le> 0 \<or> t \<le> a then k else norm_shift (2 * a) t (Suc k))"
  by pat_completeness auto
termination
  by (relation "measure (\<lambda>(a, t, k). nat (t - a))") auto

definition float64_quotient :: "int \<Rightarrow> int \<Rightarrow> rat" where
  "float64_quotient n d =
     (let a = \<bar>n\<bar>;
          k = norm_shift a (d * 2 ^ 52) 0;
          q = (a * 2 ^ k) div d;
          r = (a * 2 ^ k) mod d;
          m = (if 2 * r < d then q
               else if d < 2 * r then q + 1
               else if even q then q else q + 1)
      in of_int (sgn n * m) / 2 ^ k)"

text \<open>The constant \<^verbatim>\<open>0.4\<close> as a \<^verbatim>\<open>float64\<close>.\<close>

definition float64_0_4 :: rat where
  "float64_0_4 = float64_quotient 2 5"

text \<open>The conversion of a \<^verbatim>\<open>float64\<close> to \<^verbatim>\<open>int\<close> truncates towards zero.\<close>

definition trunc :: "rat \<Rightarrow> int" where
  "trunc x = (if x < 0 then - \<lfloor>- x\<rfloor> else \<lfloor>x\<rfloor>)"

text \<open>\<^verbatim>\<open>math.Modf\<close>: the integer part and the fractional part, both with the sign of \<open>x\<close>.\<close>

definition Modf :: "rat \<Rightarrow> rat \<times> rat" where
  "Modf x = (of_int (trunc x), x - of_int (trunc x))"

text \<open>\<^verbatim>\<open>int16(val)\<close>: the low 16 bits, signed.\<close>

definition int16 :: "64 word \<Rightarrow> int" where
  "int16 val = sint (ucast val :: 16 word)"

text \<open>
  A write to a slice of runes at an index outside of it panics
  (\<^verbatim>\<open>index out of range [i] with length n\<close>).
\<close>

datatype panic = IndexOutOfRange int nat

definition set_rune :: "string \<Rightarrow> int \<Rightarrow> char \<Rightarrow> panic + string" where
  "set_rune rs i r =
     (if 0 \<le> i \<and> i < int (length rs) then Inr (rs[nat i := r])
      else Inl (IndexOutOfRange i (length rs)))"

definition getBias :: string where
  "getBias = ''6..5..4..0..1..2..3''"

text \<open>Lines 79 and 91 to 99: the fractional stop.\<close>

definition fStop :: "rat \<Rightarrow> int" where
  "fStop f =
     (if f \<noteq> 0 then
        (let fStop = (if \<bar>f\<bar> > float64_0_4 then 2 else 1)
         in if f < 0 then - fStop else fStop)
      else 0)"

text \<open>
  Lines 88 to 100, "Calculate marker position": the two results of \<^verbatim>\<open>math.Modf\<close> and
  \<^verbatim>\<open>pos\<close>, with \<^verbatim>\<open>zero\<close> = 9 and \<^verbatim>\<open>stops\<close> = 3.
\<close>

definition markerPosition :: "64 word \<Rightarrow> rat \<times> rat \<times> int" where
  "markerPosition val =
     (let (i, f) = Modf (float64_quotient (int16 val) 1000)
      in (i, f, 9 + fStop f + trunc (i * 3)))"

text \<open>
  Lines 118 to 122, the loop over the runes of the white marker: for each rune the pen goes
  back to the origin, the rune is written to \<^verbatim>\<open>marker[pos]\<close> and the marker is drawn.
\<close>

fun drawMarkers :: "Widget \<Rightarrow> string \<Rightarrow> int \<Rightarrow> char list \<Rightarrow> panic + Widget" where
  "drawMarkers w marker pos [] = Inr w"
| "drawMarkers w marker pos (r # rs) =
     (case set_rune marker pos r of
        Inl e \<Rightarrow> Inl e
      | Inr marker \<Rightarrow> drawMarkers (DrawString marker (ResetToOrigin w)) marker pos rs)"

text \<open>
  \<^verbatim>\<open>func drawFujiExposureBiasCompensation(w *Widget, val int64)\<close>. The parameter \<open>gw\<close> is
  \<^verbatim>\<open>VFGlyphs6x13.Width\<close>, which is declared in another file of the package. The rune
  \<^verbatim>\<open>'"'\<close> is \<open>CHR 0x22\<close>.
\<close>

definition drawFujiExposureBiasCompensation :: "int \<Rightarrow> Widget \<Rightarrow> 64 word \<Rightarrow> panic + Widget" where
  "drawFujiExposureBiasCompensation gw w val =
     (let w = ResetColour (ResetToOrigin w);
          bias = getBias;
          marker = replicate 19 (CHR '' '');
          w = w\<lparr>Dot := (fst (Dot w) - gw * 3 * 64, snd (Dot w))\<rparr>;
          w = ResetToOrigin (DrawString ''+-'' w);
          (i, f, pos) = markerPosition val;
          onZero = (i = 0 \<and> f = 0)
      in case (if f = 0 then set_rune bias pos (CHR 0x22) else Inr bias) of
           Inl e \<Rightarrow> Inl e
         | Inr bias \<Rightarrow>
             (let w = (if onZero then SetColour 100 100 100 w else w);
                  w = DrawString bias w
              in if onZero then drawMarkers (SetColour 255 255 255 w) marker pos [CHR 0x22, CHR ''!'']
                 else
                   (case set_rune marker pos (CHR ''!'') of
                      Inl e \<Rightarrow> Inl e
                    | Inr marker \<Rightarrow>
                        Inr (DrawString marker (ResetToOrigin (SetColour 255 185 10 w))))))"

text \<open>
  The third-stop offset in the words of the specification: 0 when \<open>f = 0\<close>, 1 when
  \<open>0 < \<bar>f\<bar> \<le> 0.4\<close>, 2 when \<open>\<bar>f\<bar> > 0.4\<close>, with the sign of \<open>f\<close>. Both \<open>f\<close> and 0.4 are the
  \<^verbatim>\<open>float64\<close> values of the code.
\<close>

definition thirdStop :: "rat \<Rightarrow> int" where
  "thirdStop f =
     (if f = 0 then 0
      else if \<bar>f\<bar> \<le> float64_0_4 then (if 0 < f then 1 else - 1)
      else (if 0 < f then 2 else - 2))"

definition yellow :: colour where "yellow = (255, 185, 10)"
definition white :: colour where "white = (255, 255, 255)"
definition grey :: colour where "grey = (100, 100, 100)"
definition red :: colour where "red = (255, 0, 0)"

section \<open>Package main: the exit status of the command\<close>

text \<open>
  \<^verbatim>\<open>func main()\<close> of cmd/main.go reads package variables that the flags set and calls
  \<^verbatim>\<open>usage\<close>, \<^verbatim>\<open>initFlags\<close>, \<^verbatim>\<open>loadConfig\<close> and \<^verbatim>\<open>launchServer\<close>, which are declared in files
  of package main that are not among the sources, and \<^verbatim>\<open>ip.NewClient\<close> and \<^verbatim>\<open>Dial\<close> of
  package ip. What these do is a parameter of \<open>main\<close>: a call returns, ends the process with
  a status of its own, or does not return; \<open>version\<close>, \<open>file_var\<close> and \<open>server\<close> are the
  values of \<^verbatim>\<open>version\<close>, \<^verbatim>\<open>file\<close> and \<^verbatim>\<open>server\<close> when \<open>main\<close> reads them, \<open>help_var\<close> is the
  value of \<^verbatim>\<open>help\<close> when \<open>main\<close> starts (\<open>help\<close> and \<open>file\<close> are keywords of Isabelle).
\<close>

datatype call = Returns | Exits int | Never

record cli =
  os_Args :: "string list"
  help_var :: bool
  usage :: call
  initFlags :: call
  version :: bool
  file_var :: string
  loadConfig :: call
  NewClient :: "error option"
  Dial :: "error option"
  server :: bool
  launchServer :: call

text \<open>
  How the process ends: with an exit status, with the panic of \<^verbatim>\<open>os.Args[0]\<close> on an empty
  argument vector, or not at all.
\<close>

datatype ending = Exit int | Panic | NoExit

definition after :: "call \<Rightarrow> ending \<Rightarrow> ending" where
  "after c rest = (case c of Returns \<Rightarrow> rest | Exits n \<Rightarrow> Exit n | Never \<Rightarrow> NoExit)"

text \<open>
  \<^verbatim>\<open>func main()\<close>. The deferred \<^verbatim>\<open>cl.Close()\<close> does not run, every path ends in
  \<^verbatim>\<open>os.Exit\<close>; the output is left out.
\<close>

definition main :: "cli \<Rightarrow> ending" where
  "main E =
     (if os_Args E = [] then Panic
      else
        let noArgs = length (os_Args E) < 2 in
        if noArgs \<or> help_var E then
          after (usage E) (let exit = 0; exit = (if noArgs then 1 else exit) in Exit exit)
        else
          after (initFlags E)
            (if version E then Exit 0
             else
               after (if file_var E \<noteq> [] then loadConfig E else Returns)
                 (case NewClient E of
                    Some err \<Rightarrow> Exit 4
                  | None \<Rightarrow>
                      (case Dial E of
                         Some err \<Rightarrow> Exit 5
                       | None \<Rightarrow>
                           after (if server E then launchServer E else Returns) (Exit 0)))))"

text \<open>An invocation for the evaluation on inputs: every call returns, nothing fails.\<close>

definition plain_cli :: cli where
  "plain_cli =
     \<lparr>os_Args = [''ptpip'', ''-h''], help_var = False, usage = Returns, initFlags = Returns,
      version = False, file_var = [], loadConfig = Returns, NewClient = None, Dial = None,
      server = False, launchServer = Returns\<rparr>"

section \<open>Properties\<close>

subsection \<open>The success predicate of the responses\<close>

text \<open>
  C3. For every Fuji operation response packet, of the plain and of the one-parameter
  variant, \<open>WasSuccessfull\<close> is true if and only if the packet's OperationResponseCode is one
  of \<open>RC_OK\<close>, \<open>RC_SessionAlreadyOpen\<close> and \<open>RC_Fuji_DevicePropValue\<close>, which is 0x1015.
\<close>

theorem WasSuccessfull_iff_code_in_success_set:
  "(WasSuccessfull K p \<longleftrightarrow>
      OperationResponseCode p \<in> {RC_OK K, RC_SessionAlreadyOpen K, RC_Fuji_DevicePropValue}) \<and>
   (WasSuccessfullOne K po \<longleftrightarrow>
      OperationResponseCode po \<in> {RC_OK K, RC_SessionAlreadyOpen K, RC_Fuji_DevicePropValue}) \<and>
   RC_Fuji_DevicePropValue = 0x1015"
  by (simp add: WasSuccessfull_def WasSuccessfullOne_def RC_Fuji_DevicePropValue_def)

subsection \<open>The wire layout of the init command request\<close>

lemma le32_PV_Fuji: "le32 PV_Fuji = [0xF2, 0xE4, 0x53, 0x8F]"
  by (simp add: le32_def PV_Fuji_def drop_bit_eq_div)

text \<open>
  C2. For every GUID \<open>g\<close> and friendly name \<open>s\<close> the payload of
  \<open>NewFujiInitCommandRequestPacket g s\<close> is the ProtocolVersion, then the GUID, then the
  FriendlyName, and the ProtocolVersion is 0x8F53E4F2, sent as F2 E4 53 8F. For the GUID
  ada5485d-87b2-7f0b-d3d5-ded00278a8c0 the payload begins with the 20 bytes
  F2 E4 53 8F AD A5 48 5D 87 B2 7F 0B D3 D5 DE D0 02 78 A8 C0.
\<close>

theorem Payload_NewFujiInitCommandRequestPacket:
  "Payload utf16 (NewFujiInitCommandRequestPacket g s) =
     le32 (GetProtocolVersion (NewFujiInitCommandRequestPacket g s)) @ g @ MarshalString utf16 s \<and>
   GetProtocolVersion (NewFujiInitCommandRequestPacket g s) = 0x8F53E4F2 \<and>
   Payload utf16 (NewFujiInitCommandRequestPacket g s) =
     [0xF2, 0xE4, 0x53, 0x8F] @ g @ MarshalString utf16 s \<and>
   uuid_String example_GUID = ''ada5485d-87b2-7f0b-d3d5-ded00278a8c0'' \<and>
   take 20 (Payload utf16 (NewFujiInitCommandRequestPacket example_GUID s)) =
     [0xF2, 0xE4, 0x53, 0x8F, 0xAD, 0xA5, 0x48, 0x5D, 0x87, 0xB2, 0x7F, 0x0B,
      0xD3, 0xD5, 0xDE, 0xD0, 0x02, 0x78, 0xA8, 0xC0]"
proof -
  have str: "uuid_String example_GUID = ''ada5485d-87b2-7f0b-d3d5-ded00278a8c0''"
    by (simp add: uuid_String_def example_GUID_def hexbytes_def hexbyte_def hexdigit_def)
  have pay: "Payload utf16 (NewFujiInitCommandRequestPacket g s) =
      [0xF2, 0xE4, 0x53, 0x8F] @ g @ MarshalString utf16 s" for g
    using le32_PV_Fuji
    by (simp add: Payload_def MarshalLittleEndian_def NewFujiInitCommandRequestPacket_def)
  have pv: "GetProtocolVersion (NewFujiInitCommandRequestPacket g s) = 0x8F53E4F2"
    by (simp add: GetProtocolVersion_def NewFujiInitCommandRequestPacket_def PV_Fuji_def)
  have ex: "take 20 (Payload utf16 (NewFujiInitCommandRequestPacket example_GUID s)) =
     [0xF2, 0xE4, 0x53, 0x8F, 0xAD, 0xA5, 0x48, 0x5D, 0x87, 0xB2, 0x7F, 0x0B,
      0xD3, 0xD5, 0xDE, 0xD0, 0x02, 0x78, 0xA8, 0xC0]"
    unfolding pay by (simp add: example_GUID_def)
  have ord: "Payload utf16 (NewFujiInitCommandRequestPacket g s) =
     le32 (GetProtocolVersion (NewFujiInitCommandRequestPacket g s)) @ g @ MarshalString utf16 s"
    by (simp add: Payload_def MarshalLittleEndian_def NewFujiInitCommandRequestPacket_def
        GetProtocolVersion_def)
  show ?thesis
    by (intro conjI) (rule ord, rule pv, rule pay, rule str, rule ex)
qed

subsection \<open>The initialisation sequence, block by block\<close>

lemmas io_defs = SendPacketToCmdDataConn_def WaitForPacketFromCmdDataConn_def
  WaitForPacketFromCmdDataConnOne_def incrementTransactionId_def TransactionId_def

lemmas io_splits = list.splits option.splits sum.splits prod.splits if_splits

lemma WasSuccessfull_truncate:
  "WasSuccessfull K (FujiOperationResponsePacket.truncate r) = WasSuccessfullOne K r"
  by (simp add: WasSuccessfull_def WasSuccessfullOne_def FujiOperationResponsePacket.truncate_def)

lemma stops_at_failure_append:
  "list_all (\<lambda>e. failure_of K e = None) evs1 \<Longrightarrow> stops_at_failure K r evs2 \<Longrightarrow>
   stops_at_failure K r (evs1 @ evs2)"
  by (induction K r evs1 rule: stops_at_failure.induct) (cases evs2; simp)+

lemma stops_at_failure_nth:
  "stops_at_failure K r evs \<Longrightarrow> i < length evs \<Longrightarrow> failure_of K (evs ! i) = Some err \<Longrightarrow>
   Suc i = length evs \<and> r = Some err"
proof (induction K r evs arbitrary: i rule: stops_at_failure.induct)
  case (1 K r)
  then show ?case by simp
next
  case (2 K r e)
  then show ?case by auto
next
  case (3 K r e e' es)
  then show ?case by (cases i) auto
qed

lemma run_seq: "run K c None c1 \<Longrightarrow> run K c1 r c2 \<Longrightarrow> run K c r c2"
  unfolding run_def
  by (elim conjE exE) (auto intro: stops_at_failure_append)

text \<open>Every block stops at the first unsuccessful response and leaves the connections alone.\<close>

lemma OpenSession_block_run: "OpenSession_block K c = (r, c') \<Longrightarrow> run K c r c'"
  by (auto simp: OpenSession_block_def io_defs run_def failure_of_def split: io_splits)

lemma UseInitSequence_block_run: "UseInitSequence_block K c = (r, c') \<Longrightarrow> run K c r c'"
  by (auto simp: UseInitSequence_block_def io_defs run_def failure_of_def split: io_splits)

lemma GetAppVersion_block_run:
  "GetAppVersion_block K c = (x, c') \<Longrightarrow>
   run K c (case x of Inl err \<Rightarrow> Some err | Inr po \<Rightarrow> None) c'"
  by (auto simp: GetAppVersion_block_def io_defs run_def failure_of_def split: io_splits)

lemma SetAppVersion_block_run: "SetAppVersion_block K po c = (r, c') \<Longrightarrow> run K c r c'"
  by (auto simp: SetAppVersion_block_def io_defs run_def failure_of_def split: io_splits)

lemma InitiateOpenCapture_block_run: "InitiateOpenCapture_block K c = (r, c') \<Longrightarrow> run K c r c'"
  by (auto simp: InitiateOpenCapture_block_def io_defs run_def failure_of_def split: io_splits)

lemma FujiInitSequence_run:
  assumes "FujiInitSequence K c = (r, c')"
  shows "run K c r c'"
proof (cases "OpenSession_block K c")
  case (Pair r1 c1)
  note b1 = OpenSession_block_run [OF Pair]
  show ?thesis
  proof (cases r1)
    case (Some err)
    with assms Pair b1 show ?thesis by (simp add: FujiInitSequence_def)
  next
    case None
    obtain r2 c2 where p2: "UseInitSequence_block K c1 = (r2, c2)" by force
    note b2 = run_seq [OF b1 [unfolded None] UseInitSequence_block_run [OF p2]]
    show ?thesis
    proof (cases r2)
      case (Some err)
      with assms Pair None p2 b2 show ?thesis by (simp add: FujiInitSequence_def)
    next
      case r2: None
      obtain x c3 where p3: "GetAppVersion_block K c2 = (x, c3)" by force
      note b3 = run_seq [OF b2 [unfolded r2] GetAppVersion_block_run [OF p3]]
      show ?thesis
      proof (cases x)
        case (Inl err)
        with assms Pair None p2 r2 p3 b3 show ?thesis by (simp add: FujiInitSequence_def)
      next
        case (Inr po)
        obtain r4 c4 where p4: "SetAppVersion_block K po c3 = (r4, c4)" by force
        from b3 Inr have b3': "run K c None c3" by simp
        note b4 = run_seq [OF b3' SetAppVersion_block_run [OF p4]]
        show ?thesis
        proof (cases r4)
          case (Some err)
          with assms Pair None p2 r2 p3 Inr p4 b4 show ?thesis by (simp add: FujiInitSequence_def)
        next
          case r4: None
          from assms Pair None p2 r2 p3 Inr p4 r4
          have "InitiateOpenCapture_block K c4 = (r, c')" by (simp add: FujiInitSequence_def)
          from run_seq [OF b4 [unfolded r4] InitiateOpenCapture_block_run [OF this]]
          show ?thesis .
        qed
      qed
    qed
  qed
qed

subsection \<open>An unsuccessful response ends the sequence\<close>

text \<open>
  C4. Whenever a response that FujiInitSequence receives is not successful, the function
  returns at once with the canonical name of the response code as its error: the response
  is the last event of the run, so no packet is sent and nothing is read after it. The two
  connections are as open as they were; closing them is left to the caller.
\<close>

theorem FujiInitSequence_returns_at_unsuccessful_response:
  assumes "FujiInitSequence K c = (r, c')"
  shows "\<exists>evs. trace c' = trace c @ evs \<and>
      (\<forall>i p. i < length evs \<and> evs ! i = Received p \<and> \<not> WasSuccessfull K p \<longrightarrow>
          r = Some (OperationResponseCodeAsString K (OperationResponseCode p)) \<and>
          Suc i = length evs) \<and>
      (\<forall>i po. i < length evs \<and> evs ! i = ReceivedOne po \<and> \<not> WasSuccessfullOne K po \<longrightarrow>
          r = Some (OperationResponseCodeAsString K (OperationResponseCode po)) \<and>
          Suc i = length evs) \<and>
      commandDataConnOpen c' = commandDataConnOpen c \<and> eventConnOpen c' = eventConnOpen c"
proof -
  from FujiInitSequence_run [OF assms] obtain evs where
    tr: "trace c' = trace c @ evs" and st: "stops_at_failure K r evs" and
    op: "commandDataConnOpen c' = commandDataConnOpen c" "eventConnOpen c' = eventConnOpen c"
    unfolding run_def by blast
  have plain: "r = Some (OperationResponseCodeAsString K (OperationResponseCode p)) \<and>
      Suc i = length evs"
    if "i < length evs" "evs ! i = Received p" "\<not> WasSuccessfull K p" for i p
  proof -
    from that have "failure_of K (evs ! i) = Some (ReasonAsError K p)"
      by (simp add: failure_of_def)
    from stops_at_failure_nth [OF st that(1) this] show ?thesis
      by (simp add: ReasonAsError_def)
  qed
  have one: "r = Some (OperationResponseCodeAsString K (OperationResponseCode po)) \<and>
      Suc i = length evs"
    if "i < length evs" "evs ! i = ReceivedOne po" "\<not> WasSuccessfullOne K po" for i po
  proof -
    from that have "failure_of K (evs ! i) = Some (ReasonAsErrorOne K po)"
      by (simp add: failure_of_def)
    from stops_at_failure_nth [OF st that(1) this] show ?thesis
      by (simp add: ReasonAsErrorOne_def)
  qed
  from tr op plain one show ?thesis by blast
qed

lemmas block_defs = FujiInitSequence_def OpenSession_block_def UseInitSequence_block_def
  GetAppVersion_block_def SetAppVersion_block_def InitiateOpenCapture_block_def
  NewFujiOpenSessionCommand_def

lemmas eval_defs = block_defs io_defs std_decls_def response_def WasSuccessfull_def
  WasSuccessfullOne_def ReasonAsError_def ReasonAsErrorOne_def
  FujiOperationResponsePacket.truncate_def RC_Fuji_DevicePropValue_def
  DPC_Fuji_UseInitSequence_def DPC_Fuji_AppVersion_def PM_Fuji_InitSequence_def

text \<open>
  The responder that answers the init sequence number with 0x2019: the fifth event of the
  run is that response, the error is its name, the third response is still unread.
\<close>

theorem FujiInitSequence_returns_at_unsuccessful_response_witness:
  "fst (FujiInitSequence std_decls busy_client) = Some ''device busy'' \<and>
   length (trace (snd (FujiInitSequence std_decls busy_client))) = 5 \<and>
   trace (snd (FujiInitSequence std_decls busy_client)) ! 4 =
     Received \<lparr>DataPhase = 0, OperationResponseCode = 0x2019, RespTransactionID = 1\<rparr> \<and>
   \<not> WasSuccessfull std_decls
       \<lparr>DataPhase = 0, OperationResponseCode = 0x2019, RespTransactionID = 1\<rparr> \<and>
   incoming (snd (FujiInitSequence std_decls busy_client)) = [response 0x2001 2 0] \<and>
   commandDataConnOpen (snd (FujiInitSequence std_decls busy_client))"
proof -
  have ev: "FujiInitSequence std_decls busy_client =
      (fst (FujiInitSequence std_decls busy_client), snd (FujiInitSequence std_decls busy_client))"
    by simp
  show ?thesis
    using FujiInitSequence_returns_at_unsuccessful_response [OF ev]
    by (simp add: eval_defs busy_client_def)
qed

subsection \<open>The run of a complete handshake\<close>

lemma OpenSession_block_None:
  "OpenSession_block K c = (None, c') \<Longrightarrow>
   \<exists>p. WasSuccessfull K p \<and>
       trace c' = trace c @
         [Sent (NewFujiOpenSessionCommand K (transactionId c) 0x00000001), Received p] \<and>
       transactionId c' = transactionId c + 1"
  by (auto simp: OpenSession_block_def io_defs split: io_splits)

lemma UseInitSequence_block_None:
  "UseInitSequence_block K c = (None, c') \<Longrightarrow>
   \<exists>p. WasSuccessfull K p \<and>
       trace c' = trace c @
         [Sent \<lparr>DataPhaseInfo = ucast (DP_NoDataOrDataIn K),
               OperationCode = OC_SetDevicePropValue K,
               TransactionID = transactionId c, Parameter1 = 0xDF01,
               Parameter2 = 0, Parameter3 = 0, Parameter4 = 0, Parameter5 = 0\<rparr>,
          Sent \<lparr>DataPhaseInfo = ucast (DP_DataOut K), OperationCode = OC_SetDevicePropValue K,
               TransactionID = transactionId c, Parameter1 = 0x00000005,
               Parameter2 = 0, Parameter3 = 0, Parameter4 = 0, Parameter5 = 0\<rparr>,
          Received p] \<and>
       transactionId c' = transactionId c + 1"
  by (auto simp: UseInitSequence_block_def io_defs DPC_Fuji_UseInitSequence_def
      PM_Fuji_InitSequence_def split: io_splits)

lemma GetAppVersion_block_Inr:
  "GetAppVersion_block K c = (Inr po, c') \<Longrightarrow>
   \<exists>p. WasSuccessfullOne K po \<and> WasSuccessfull K p \<and>
       trace c' = trace c @
         [Sent \<lparr>DataPhaseInfo = ucast (DP_NoDataOrDataIn K),
               OperationCode = OC_GetDevicePropValue K,
               TransactionID = transactionId c, Parameter1 = 0xDF24,
               Parameter2 = 0, Parameter3 = 0, Parameter4 = 0, Parameter5 = 0\<rparr>,
          ReceivedOne po, Received p] \<and>
       transactionId c' = transactionId c + 1"
  by (auto simp: GetAppVersion_block_def io_defs DPC_Fuji_AppVersion_def split: io_splits)

lemma SetAppVersion_block_None:
  "SetAppVersion_block K po c = (None, c') \<Longrightarrow>
   \<exists>p. WasSuccessfull K p \<and>
       trace c' = trace c @
         [Sent \<lparr>DataPhaseInfo = ucast (DP_NoDataOrDataIn K),
               OperationCode = OC_SetDevicePropValue K,
               TransactionID = transactionId c, Parameter1 = 0xDF24,
               Parameter2 = 0, Parameter3 = 0, Parameter4 = 0, Parameter5 = 0\<rparr>,
          Sent \<lparr>DataPhaseInfo = ucast (DP_DataOut K), OperationCode = OC_SetDevicePropValue K,
               TransactionID = transactionId c, Parameter1 = RespParameter1 po,
               Parameter2 = 0, Parameter3 = 0, Parameter4 = 0, Parameter5 = 0\<rparr>,
          Received p] \<and>
       transactionId c' = transactionId c + 1"
  by (auto simp: SetAppVersion_block_def io_defs DPC_Fuji_AppVersion_def split: io_splits)

lemma InitiateOpenCapture_block_None:
  "InitiateOpenCapture_block K c = (None, c') \<Longrightarrow>
   \<exists>p. WasSuccessfull K p \<and>
       trace c' = trace c @
         [Sent \<lparr>DataPhaseInfo = ucast (DP_NoDataOrDataIn K),
               OperationCode = OC_InitiateOpenCapture K,
               TransactionID = transactionId c, Parameter1 = 0,
               Parameter2 = 0, Parameter3 = 0, Parameter4 = 0, Parameter5 = 0\<rparr>,
          Received p] \<and>
       transactionId c' = transactionId c"
  by (auto simp: InitiateOpenCapture_block_def io_defs split: io_splits)

lemma FujiInitSequence_None_blocks:
  assumes "FujiInitSequence K c = (None, c')"
  shows "\<exists>c1 c2 po c3 c4.
      OpenSession_block K c = (None, c1) \<and> UseInitSequence_block K c1 = (None, c2) \<and>
      GetAppVersion_block K c2 = (Inr po, c3) \<and> SetAppVersion_block K po c3 = (None, c4) \<and>
      InitiateOpenCapture_block K c4 = (None, c')"
  using assms unfolding FujiInitSequence_def
  by (auto split: prod.splits option.splits sum.splits)

text \<open>
  C10. In a handshake that FujiInitSequence completes, the request GetDevicePropValue(0xDF24)
  is followed by two reads, the first into the one-parameter response \<open>po\<close> and the second
  into a plain response; the two packets of the echo come next, and the Parameter1 of the
  DataOut packet is the Parameter1 of \<open>po\<close>. The transaction identifier is incremented twice
  in this step: the request carries the identifier of the entry plus 2, the echo plus 3, and
  the InitiateOpenCapture request that follows plus 4.
\<close>

theorem FujiInitSequence_negotiates_app_version:
  assumes "FujiInitSequence K c = (None, c')"
  shows "\<exists>p1 p2 po p3 p4 p5.
      WasSuccessfullOne K po \<and> WasSuccessfull K p3 \<and> WasSuccessfull K p4 \<and>
      trace c' = trace c @
        [Sent (NewFujiOpenSessionCommand K (transactionId c) 0x00000001),
         Received p1,
         Sent \<lparr>DataPhaseInfo = ucast (DP_NoDataOrDataIn K),
              OperationCode = OC_SetDevicePropValue K,
              TransactionID = transactionId c + 1, Parameter1 = 0xDF01,
              Parameter2 = 0, Parameter3 = 0, Parameter4 = 0, Parameter5 = 0\<rparr>,
         Sent \<lparr>DataPhaseInfo = ucast (DP_DataOut K), OperationCode = OC_SetDevicePropValue K,
              TransactionID = transactionId c + 1, Parameter1 = 0x00000005,
              Parameter2 = 0, Parameter3 = 0, Parameter4 = 0, Parameter5 = 0\<rparr>,
         Received p2,
         Sent \<lparr>DataPhaseInfo = ucast (DP_NoDataOrDataIn K),
              OperationCode = OC_GetDevicePropValue K,
              TransactionID = transactionId c + 2, Parameter1 = 0xDF24,
              Parameter2 = 0, Parameter3 = 0, Parameter4 = 0, Parameter5 = 0\<rparr>,
         ReceivedOne po,
         Received p3,
         Sent \<lparr>DataPhaseInfo = ucast (DP_NoDataOrDataIn K),
              OperationCode = OC_SetDevicePropValue K,
              TransactionID = transactionId c + 3, Parameter1 = 0xDF24,
              Parameter2 = 0, Parameter3 = 0, Parameter4 = 0, Parameter5 = 0\<rparr>,
         Sent \<lparr>DataPhaseInfo = ucast (DP_DataOut K), OperationCode = OC_SetDevicePropValue K,
              TransactionID = transactionId c + 3, Parameter1 = RespParameter1 po,
              Parameter2 = 0, Parameter3 = 0, Parameter4 = 0, Parameter5 = 0\<rparr>,
         Received p4,
         Sent \<lparr>DataPhaseInfo = ucast (DP_NoDataOrDataIn K),
              OperationCode = OC_InitiateOpenCapture K,
              TransactionID = transactionId c + 4, Parameter1 = 0,
              Parameter2 = 0, Parameter3 = 0, Parameter4 = 0, Parameter5 = 0\<rparr>,
         Received p5]"
proof -
  from FujiInitSequence_None_blocks [OF assms] obtain c1 c2 po c3 c4 where
    b1: "OpenSession_block K c = (None, c1)" and
    b2: "UseInitSequence_block K c1 = (None, c2)" and
    b3: "GetAppVersion_block K c2 = (Inr po, c3)" and
    b4: "SetAppVersion_block K po c3 = (None, c4)" and
    b5: "InitiateOpenCapture_block K c4 = (None, c')"
    by blast
  from OpenSession_block_None [OF b1] obtain p1 where
    t1: "trace c1 = trace c @
      [Sent (NewFujiOpenSessionCommand K (transactionId c) 0x00000001), Received p1]" and
    i1: "transactionId c1 = transactionId c + 1"
    by blast
  from UseInitSequence_block_None [OF b2] obtain p2 where
    t2: "trace c2 = trace c1 @
         [Sent \<lparr>DataPhaseInfo = ucast (DP_NoDataOrDataIn K),
               OperationCode = OC_SetDevicePropValue K,
               TransactionID = transactionId c1, Parameter1 = 0xDF01,
               Parameter2 = 0, Parameter3 = 0, Parameter4 = 0, Parameter5 = 0\<rparr>,
          Sent \<lparr>DataPhaseInfo = ucast (DP_DataOut K), OperationCode = OC_SetDevicePropValue K,
               TransactionID = transactionId c1, Parameter1 = 0x00000005,
               Parameter2 = 0, Parameter3 = 0, Parameter4 = 0, Parameter5 = 0\<rparr>,
          Received p2]" and
    i2: "transactionId c2 = transactionId c1 + 1"
    by blast
  from GetAppVersion_block_Inr [OF b3] obtain p3 where
    s3: "WasSuccessfullOne K po" "WasSuccessfull K p3" and
    t3: "trace c3 = trace c2 @
         [Sent \<lparr>DataPhaseInfo = ucast (DP_NoDataOrDataIn K),
               OperationCode = OC_GetDevicePropValue K,
               TransactionID = transactionId c2, Parameter1 = 0xDF24,
               Parameter2 = 0, Parameter3 = 0, Parameter4 = 0, Parameter5 = 0\<rparr>,
          ReceivedOne po, Received p3]" and
    i3: "transactionId c3 = transactionId c2 + 1"
    by blast
  from SetAppVersion_block_None [OF b4] obtain p4 where
    s4: "WasSuccessfull K p4" and
    t4: "trace c4 = trace c3 @
         [Sent \<lparr>DataPhaseInfo = ucast (DP_NoDataOrDataIn K),
               OperationCode = OC_SetDevicePropValue K,
               TransactionID = transactionId c3, Parameter1 = 0xDF24,
               Parameter2 = 0, Parameter3 = 0, Parameter4 = 0, Parameter5 = 0\<rparr>,
          Sent \<lparr>DataPhaseInfo = ucast (DP_DataOut K), OperationCode = OC_SetDevicePropValue K,
               TransactionID = transactionId c3, Parameter1 = RespParameter1 po,
               Parameter2 = 0, Parameter3 = 0, Parameter4 = 0, Parameter5 = 0\<rparr>,
          Received p4]" and
    i4: "transactionId c4 = transactionId c3 + 1"
    by blast
  from InitiateOpenCapture_block_None [OF b5] obtain p5 where
    t5: "trace c' = trace c4 @
         [Sent \<lparr>DataPhaseInfo = ucast (DP_NoDataOrDataIn K),
               OperationCode = OC_InitiateOpenCapture K,
               TransactionID = transactionId c4, Parameter1 = 0,
               Parameter2 = 0, Parameter3 = 0, Parameter4 = 0, Parameter5 = 0\<rparr>,
          Received p5]"
    by blast
  have ids: "transactionId c2 = transactionId c + 2" "transactionId c3 = transactionId c + 3"
    "transactionId c4 = transactionId c + 4"
    by (simp_all add: i1 i2 i3 i4)
  show ?thesis
    apply (rule exI [of _ p1], rule exI [of _ p2], rule exI [of _ po], rule exI [of _ p3],
        rule exI [of _ p4], rule exI [of _ p5])
    apply (simp only: t5 t4 t3 t2 t1 ids i1 s3 s4)
    apply simp
    done
qed

lemma scenario_client_completes: "fst (FujiInitSequence std_decls scenario_client) = None"
  by (simp add: eval_defs scenario_client_def)

theorem FujiInitSequence_negotiates_app_version_witness:
  "fst (FujiInitSequence std_decls scenario_client) = None \<and>
   length (trace (snd (FujiInitSequence std_decls scenario_client))) = 13 \<and>
   trace (snd (FujiInitSequence std_decls scenario_client)) ! 5 =
     Sent \<lparr>DataPhaseInfo = 1, OperationCode = 0x1015, TransactionID = 2, Parameter1 = 0xDF24,
          Parameter2 = 0, Parameter3 = 0, Parameter4 = 0, Parameter5 = 0\<rparr> \<and>
   trace (snd (FujiInitSequence std_decls scenario_client)) ! 6 =
     ReceivedOne \<lparr>DataPhase = 0, OperationResponseCode = 0x1015, RespTransactionID = 2,
                 RespParameter1 = 0x00020001\<rparr> \<and>
   trace (snd (FujiInitSequence std_decls scenario_client)) ! 7 =
     Received \<lparr>DataPhase = 0, OperationResponseCode = 0x2001, RespTransactionID = 2\<rparr> \<and>
   trace (snd (FujiInitSequence std_decls scenario_client)) ! 9 =
     Sent \<lparr>DataPhaseInfo = 2, OperationCode = 0x1016, TransactionID = 3,
          Parameter1 = 0x00020001,
          Parameter2 = 0, Parameter3 = 0, Parameter4 = 0, Parameter5 = 0\<rparr> \<and>
   trace (snd (FujiInitSequence std_decls scenario_client)) ! 11 =
     Sent \<lparr>DataPhaseInfo = 1, OperationCode = 0x101C, TransactionID = 4, Parameter1 = 0,
          Parameter2 = 0, Parameter3 = 0, Parameter4 = 0, Parameter5 = 0\<rparr>"
proof -
  have ev: "FujiInitSequence std_decls scenario_client =
      (None, snd (FujiInitSequence std_decls scenario_client))"
    using scenario_client_completes by (simp add: prod_eq_iff)
  show ?thesis
    using FujiInitSequence_negotiates_app_version [OF ev]
    by (simp add: eval_defs scenario_client_def)
qed

subsection \<open>The transaction identifier after the handshake\<close>

lemma OpenSession_block_progress:
  "writes_succeed c \<Longrightarrow> incoming c = Inr r # rs \<Longrightarrow> WasSuccessfullOne K r \<Longrightarrow>
   \<exists>c'. OpenSession_block K c = (None, c') \<and> transactionId c' = transactionId c + 1 \<and>
        incoming c' = rs \<and> writes_succeed c'"
  by (auto simp: OpenSession_block_def io_defs writes_succeed_def WasSuccessfull_truncate
      split: io_splits)

lemma UseInitSequence_block_progress:
  "writes_succeed c \<Longrightarrow> incoming c = Inr r # rs \<Longrightarrow> WasSuccessfullOne K r \<Longrightarrow>
   \<exists>c'. UseInitSequence_block K c = (None, c') \<and> transactionId c' = transactionId c + 1 \<and>
        incoming c' = rs \<and> writes_succeed c'"
  by (auto simp: UseInitSequence_block_def io_defs writes_succeed_def WasSuccessfull_truncate
      split: io_splits)

lemma GetAppVersion_block_progress:
  "writes_succeed c \<Longrightarrow> incoming c = Inr r # Inr r' # rs \<Longrightarrow> WasSuccessfullOne K r \<Longrightarrow>
   WasSuccessfullOne K r' \<Longrightarrow>
   \<exists>c'. GetAppVersion_block K c = (Inr r, c') \<and> transactionId c' = transactionId c + 1 \<and>
        incoming c' = rs \<and> writes_succeed c'"
  by (auto simp: GetAppVersion_block_def io_defs writes_succeed_def WasSuccessfull_truncate
      split: io_splits)

lemma SetAppVersion_block_progress:
  "writes_succeed c \<Longrightarrow> incoming c = Inr r # rs \<Longrightarrow> WasSuccessfullOne K r \<Longrightarrow>
   \<exists>c'. SetAppVersion_block K po c = (None, c') \<and> transactionId c' = transactionId c + 1 \<and>
        incoming c' = rs \<and> writes_succeed c'"
  by (auto simp: SetAppVersion_block_def io_defs writes_succeed_def WasSuccessfull_truncate
      split: io_splits)

lemma InitiateOpenCapture_block_progress:
  "writes_succeed c \<Longrightarrow> incoming c = Inr r # rs \<Longrightarrow> WasSuccessfullOne K r \<Longrightarrow>
   \<exists>c'. InitiateOpenCapture_block K c = (None, c') \<and> transactionId c' = transactionId c \<and>
        incoming c' = rs \<and> writes_succeed c'"
  by (auto simp: InitiateOpenCapture_block_def io_defs writes_succeed_def WasSuccessfull_truncate
      split: io_splits)

text \<open>
  When no write fails and the responder answers with six successful responses,
  FujiInitSequence returns \<^verbatim>\<open>nil\<close>; the transaction identifier is the one of the entry plus 1
  after the OpenSession block and the one of the entry plus 4 at the return.
\<close>

lemma FujiInitSequence_TransactionID_after_handshake:
  assumes w: "writes_succeed c"
    and inc: "incoming c = Inr r1 # Inr r2 # Inr r3 # Inr r4 # Inr r5 # Inr r6 # rest"
    and ok: "list_all (WasSuccessfullOne K) [r1, r2, r3, r4, r5, r6]"
  shows "fst (FujiInitSequence K c) = None \<and>
         transactionId (snd (OpenSession_block K c)) = transactionId c + 1 \<and>
         transactionId (snd (FujiInitSequence K c)) = transactionId c + 4 \<and>
         (transactionId (snd (OpenSession_block K c)) = 1 \<longrightarrow>
            transactionId (snd (FujiInitSequence K c)) = 4)"
proof -
  from ok have s: "WasSuccessfullOne K r1" "WasSuccessfullOne K r2" "WasSuccessfullOne K r3"
    "WasSuccessfullOne K r4" "WasSuccessfullOne K r5" "WasSuccessfullOne K r6"
    by simp_all
  from OpenSession_block_progress [OF w inc s(1)] obtain c1 where
    b1: "OpenSession_block K c = (None, c1)" and i1: "transactionId c1 = transactionId c + 1" and
    n1: "incoming c1 = Inr r2 # Inr r3 # Inr r4 # Inr r5 # Inr r6 # rest" and w1: "writes_succeed c1"
    by blast
  from UseInitSequence_block_progress [OF w1 n1 s(2)] obtain c2 where
    b2: "UseInitSequence_block K c1 = (None, c2)" and i2: "transactionId c2 = transactionId c1 + 1" and
    n2: "incoming c2 = Inr r3 # Inr r4 # Inr r5 # Inr r6 # rest" and w2: "writes_succeed c2"
    by blast
  from GetAppVersion_block_progress [OF w2 n2 s(3) s(4)] obtain c3 where
    b3: "GetAppVersion_block K c2 = (Inr r3, c3)" and i3: "transactionId c3 = transactionId c2 + 1" and
    n3: "incoming c3 = Inr r5 # Inr r6 # rest" and w3: "writes_succeed c3"
    by blast
  from SetAppVersion_block_progress [OF w3 n3 s(5)] obtain c4 where
    b4: "SetAppVersion_block K r3 c3 = (None, c4)" and i4: "transactionId c4 = transactionId c3 + 1" and
    n4: "incoming c4 = Inr r6 # rest" and w4: "writes_succeed c4"
    by blast
  from InitiateOpenCapture_block_progress [OF w4 n4 s(6)] obtain c5 where
    b5: "InitiateOpenCapture_block K c4 = (None, c5)" and i5: "transactionId c5 = transactionId c4"
    by blast
  have res: "FujiInitSequence K c = (None, c5)"
    by (simp add: FujiInitSequence_def b1 b2 b3 b4 b5)
  have tid: "transactionId c5 = transactionId c + 4"
    by (simp add: i1 i2 i3 i4 i5)
  have "transactionId c5 = 4" if "transactionId c1 = 1"
    using that by (simp add: i2 i3 i4 i5)
  with res tid b1 i1 show ?thesis by simp
qed

text \<open>
  C1 on the code. On the responder of the handshake scenario every response is successful
  and FujiInitSequence returns \<^verbatim>\<open>nil\<close>. The transaction identifier is 1 immediately after
  the OpenSession block, the requests that follow carry 1, 1, 2, 3, 3 and 4, and the
  identifier is 4, not 5, at the return: the blocks before increment it after the checked
  response, and the call of \<^verbatim>\<open>incrementTransactionId\<close> that follows the response to
  InitiateOpenCapture is the first statement of the comment at lines 375 to 396.
\<close>

theorem FujiInitSequence_scenario_TransactionID_is_4:
  "transactionId (snd (OpenSession_block std_decls scenario_client)) = 1 \<and>
   fst (FujiInitSequence std_decls scenario_client) = None \<and>
   list_all (\<lambda>e. failure_of std_decls e = None)
     (trace (snd (FujiInitSequence std_decls scenario_client))) \<and>
   map TransactionID
     [pkt. Sent pkt \<leftarrow> trace (snd (FujiInitSequence std_decls scenario_client))] =
     [0, 1, 1, 2, 3, 3, 4] \<and>
   transactionId (snd (FujiInitSequence std_decls scenario_client)) = 4 \<and>
   transactionId (snd (FujiInitSequence std_decls scenario_client)) \<noteq> 5"
  by (simp add: eval_defs scenario_client_def failure_of_def)

subsection \<open>The battery widget\<close>

lemmas widget_defs = ResetToOrigin_def ResetColour_def SetColour_def DrawString_def

lemma drawFujiBattery3Bars_One:
  "FujiBatteryLevel B val = BAT_Fuji_3bOne B \<Longrightarrow>
   drawn (drawFujiBattery3Bars B w val) =
     drawn w @ [((64 * fst (origin w), 64 * snd (origin w)), red, ''baU'')]"
  by (simp add: drawFujiBattery3Bars_def widget_defs red_def)

lemma drawFujiBattery3Bars_Two:
  "FujiBatteryLevel B val \<noteq> BAT_Fuji_3bOne B \<Longrightarrow> FujiBatteryLevel B val = BAT_Fuji_3bTwo B \<Longrightarrow>
   drawn (drawFujiBattery3Bars B w val) =
     drawn w @ [((64 * fst (origin w), 64 * snd (origin w)), colour w, ''bCT'')]"
  by (simp add: drawFujiBattery3Bars_def widget_defs)

lemma drawFujiBattery3Bars_Full:
  "FujiBatteryLevel B val \<noteq> BAT_Fuji_3bOne B \<Longrightarrow> FujiBatteryLevel B val \<noteq> BAT_Fuji_3bTwo B \<Longrightarrow>
   FujiBatteryLevel B val = BAT_Fuji_3bFull B \<Longrightarrow>
   drawn (drawFujiBattery3Bars B w val) =
     drawn w @ [((64 * fst (origin w), 64 * snd (origin w)), colour w, ''BAT'')]"
  by (simp add: drawFujiBattery3Bars_def widget_defs)

lemma drawFujiBattery3Bars_colour:
  "colour (drawFujiBattery3Bars B w val) =
     (if FujiBatteryLevel B val = BAT_Fuji_3bOne B then red else colour w)"
  by (simp add: drawFujiBattery3Bars_def widget_defs red_def Let_def)

text \<open>
  C8 on the code. The level One sets the colour to red before the glyphs are drawn. The
  levels Two and Full are drawn in the current colour of the widget: drawFujiBattery3Bars
  has no call of \<^verbatim>\<open>ResetColour\<close>, so on a white widget that has drawn the level One the
  level Two is drawn in red, not in the default colour.
\<close>

theorem drawFujiBattery3Bars_Two_after_One_is_red:
  "drawn (drawFujiBattery3Bars example_levels
            (drawFujiBattery3Bars example_levels white_widget 1) 2) =
     [((6400, 3200), red, ''baU''), ((6400, 3200), red, ''bCT'')] \<and>
   defaultColour (drawFujiBattery3Bars example_levels white_widget 1) = white \<and>
   red \<noteq> white"
  by (simp add: drawFujiBattery3Bars_def widget_defs example_levels_def white_widget_def
      red_def white_def)

subsection \<open>The exposure bias widget\<close>

lemma fStop_thirdStop: "fStop f = thirdStop f"
  by (auto simp: fStop_def thirdStop_def Let_def)

text \<open>The division of a multiple of \<open>d\<close> by \<open>d\<close> is exact.\<close>

lemma float64_quotient_multiple:
  assumes "0 < d"
  shows "float64_quotient (d * k) d = of_int k"
proof -
  define K where "K = norm_shift \<bar>d * k\<bar> (d * 2 ^ 52) 0"
  have a: "\<bar>d * k\<bar> * 2 ^ K = d * (\<bar>k\<bar> * 2 ^ K)"
    using assms by (simp add: abs_mult)
  have q: "(\<bar>d * k\<bar> * 2 ^ K) div d = \<bar>k\<bar> * 2 ^ K" and r: "(\<bar>d * k\<bar> * 2 ^ K) mod d = 0"
    using assms unfolding a by simp_all
  have s: "sgn (d * k) * (\<bar>k\<bar> * 2 ^ K) = k * 2 ^ K"
    using assms by (simp add: sgn_mult mult.assoc [symmetric] mult_sgn_abs)
  show ?thesis
    unfolding float64_quotient_def Let_def K_def [symmetric] q r
    using assms by (simp add: s)
qed

lemma trunc_of_int: "trunc (of_int k) = k"
  by (simp add: trunc_def)

lemma markerPosition_multiple:
  assumes "int16 val = 1000 * k"
  shows "markerPosition val = (of_int k, 0, 9 + 3 * k)"
proof -
  have "float64_quotient (int16 val) 1000 = of_int k"
    unfolding assms by (rule float64_quotient_multiple) simp
  moreover have "trunc (of_int k * 3) = 3 * k"
    using trunc_of_int [of "k * 3"] by (simp add: mult.commute)
  ultimately show ?thesis
    by (simp add: markerPosition_def Modf_def trunc_of_int fStop_def)
qed

text \<open>What is drawn when the position is an index of the ruler.\<close>

lemma draw_on_ruler:
  assumes mp: "markerPosition val = (i, f, pos)" and lo: "0 \<le> pos" and hi: "pos < 19"
  shows "\<exists>w'. drawFujiExposureBiasCompensation gw w val = Inr w' \<and>
      drawn w' = drawn w @
        ((64 * fst (origin w) - gw * 3 * 64, 64 * snd (origin w)), defaultColour w, ''+-'') #
        (if i = 0 \<and> f = 0 then
           [((64 * fst (origin w), 64 * snd (origin w)), grey, getBias[nat pos := CHR 0x22]),
            ((64 * fst (origin w), 64 * snd (origin w)), white,
             (replicate 19 (CHR '' ''))[nat pos := CHR 0x22]),
            ((64 * fst (origin w), 64 * snd (origin w)), white,
             (replicate 19 (CHR '' ''))[nat pos := CHR ''!''])]
         else
           [((64 * fst (origin w), 64 * snd (origin w)), defaultColour w,
             if f = 0 then getBias[nat pos := CHR 0x22] else getBias),
            ((64 * fst (origin w), 64 * snd (origin w)), yellow,
             (replicate 19 (CHR '' ''))[nat pos := CHR ''!''])])"
proof -
  have len: "length getBias = 19" by (simp add: getBias_def)
  show ?thesis
    using lo hi
    by (simp add: drawFujiExposureBiasCompensation_def mp Let_def set_rune_def len widget_defs
        grey_def white_def yellow_def)
qed

lemma draw_on_ruler_last:
  assumes mp: "markerPosition val = (i, f, pos)" and lo: "0 \<le> pos" and hi: "pos < 19"
  shows "\<exists>w'. drawFujiExposureBiasCompensation gw w val = Inr w' \<and>
      last (drawn w') =
        ((64 * fst (origin w), 64 * snd (origin w)),
         (if i = 0 \<and> f = 0 then white else yellow),
         (replicate 19 (CHR '' ''))[nat pos := CHR ''!''])"
proof -
  from draw_on_ruler [OF mp lo hi, of gw w] obtain w' where
    r: "drawFujiExposureBiasCompensation gw w val = Inr w'" and
    d: "drawn w' = drawn w @
        ((64 * fst (origin w) - gw * 3 * 64, 64 * snd (origin w)), defaultColour w, ''+-'') #
        (if i = 0 \<and> f = 0 then
           [((64 * fst (origin w), 64 * snd (origin w)), grey, getBias[nat pos := CHR 0x22]),
            ((64 * fst (origin w), 64 * snd (origin w)), white,
             (replicate 19 (CHR '' ''))[nat pos := CHR 0x22]),
            ((64 * fst (origin w), 64 * snd (origin w)), white,
             (replicate 19 (CHR '' ''))[nat pos := CHR ''!''])]
         else
           [((64 * fst (origin w), 64 * snd (origin w)), defaultColour w,
             if f = 0 then getBias[nat pos := CHR 0x22] else getBias),
            ((64 * fst (origin w), 64 * snd (origin w)), yellow,
             (replicate 19 (CHR '' ''))[nat pos := CHR ''!''])])"
    by blast
  have "last (drawn w') =
        ((64 * fst (origin w), 64 * snd (origin w)),
         (if i = 0 \<and> f = 0 then white else yellow),
         (replicate 19 (CHR '' ''))[nat pos := CHR ''!''])"
    unfolding d by simp
  with r show ?thesis by blast
qed

lemma int16_333: "int16 333 = 333"
  by (simp add: int16_def)

lemma int16_minus_1666: "int16 (- 1666) = - 1666"
  by (simp add: int16_def)

lemma Modf_333:
  "Modf (float64_quotient 333 1000) = (0, 5998794703657501 / 18014398509481984)"
  by code_simp

lemma Modf_minus_1666:
  "Modf (float64_quotient (- 1666) 1000) = (- 1, - (1499698675914375 / 2251799813685248))"
  by code_simp

lemma thirdStop_333: "thirdStop (5998794703657501 / 18014398509481984) = 1"
  by code_simp

lemma thirdStop_minus_1666: "thirdStop (- (1499698675914375 / 2251799813685248)) = - 2"
  by code_simp

text \<open>
  C5, as the code has it. For every value \<open>val\<close>, with \<open>(i, f)\<close> the result of \<^verbatim>\<open>math.Modf\<close>
  on \<^verbatim>\<open>float64(int16(val)) / 1000\<close>, the position that the function computes is
  \<open>9 + thirdStop f + 3 i\<close>, with the third-stop offset of the specification. When that
  position is an index of the 19-rune ruler, the function returns and the last string it has
  drawn is the marker with \<^verbatim>\<open>'!'\<close> at the position, in yellow unless the marker is on zero.
  The value 333 puts the yellow marker at index 10 and the value -1666 at index 4.
\<close>

theorem drawFujiExposureBiasCompensation_places_marker:
  assumes "Modf (float64_quotient (int16 val) 1000) = (i, f)"
  shows "markerPosition val = (i, f, 9 + thirdStop f + trunc (i * 3)) \<and>
     (0 \<le> 9 + thirdStop f + trunc (i * 3) \<and> 9 + thirdStop f + trunc (i * 3) < 19 \<longrightarrow>
        (\<exists>w'. drawFujiExposureBiasCompensation gw w val = Inr w' \<and>
           last (drawn w') =
             ((64 * fst (origin w), 64 * snd (origin w)),
              (if i = 0 \<and> f = 0 then white else yellow),
              (replicate 19 (CHR '' ''))[nat (9 + thirdStop f + trunc (i * 3)) := CHR ''!'']))) \<and>
     (\<exists>w'. drawFujiExposureBiasCompensation gw w 333 = Inr w' \<and>
        last (drawn w') =
          ((64 * fst (origin w), 64 * snd (origin w)), yellow, ''          !        '')) \<and>
     (\<exists>w'. drawFujiExposureBiasCompensation gw w (- 1666) = Inr w' \<and>
        last (drawn w') =
          ((64 * fst (origin w), 64 * snd (origin w)), yellow, ''    !              ''))"
proof -
  have mp: "markerPosition val = (i, f, 9 + thirdStop f + trunc (i * 3))"
    by (simp add: markerPosition_def assms fStop_thirdStop)
  have m1: "markerPosition 333 = (0, 5998794703657501 / 18014398509481984, 10)"
    by (simp add: markerPosition_def int16_333 Modf_333 fStop_thirdStop thirdStop_333 trunc_def)
  have m2: "markerPosition (- 1666) = (- 1, - (1499698675914375 / 2251799813685248), 4)"
    by (simp add: markerPosition_def int16_minus_1666 Modf_minus_1666 fStop_thirdStop
        thirdStop_minus_1666 trunc_def)
  have e1: "\<exists>w'. drawFujiExposureBiasCompensation gw w 333 = Inr w' \<and>
        last (drawn w') =
          ((64 * fst (origin w), 64 * snd (origin w)), yellow, ''          !        '')"
    using draw_on_ruler_last [OF m1, of gw w] by (simp add: numeral_eq_Suc)
  have e2: "\<exists>w'. drawFujiExposureBiasCompensation gw w (- 1666) = Inr w' \<and>
        last (drawn w') =
          ((64 * fst (origin w), 64 * snd (origin w)), yellow, ''    !              '')"
    using draw_on_ruler_last [OF m2, of gw w] by (simp add: numeral_eq_Suc)
  from mp e1 e2 draw_on_ruler_last [OF mp, of gw w] show ?thesis by blast
qed

theorem drawFujiExposureBiasCompensation_places_marker_witness:
  "Modf (float64_quotient (int16 333) 1000) = (0, 5998794703657501 / 18014398509481984) \<and>
   markerPosition 333 = (0, 5998794703657501 / 18014398509481984, 10) \<and>
   (\<exists>w'. drawFujiExposureBiasCompensation 6 white_widget 333 = Inr w' \<and>
      last (drawn w') = ((6400, 3200), yellow, ''          !        ''))"
proof -
  have m: "Modf (float64_quotient (int16 333) 1000) = (0, 5998794703657501 / 18014398509481984)"
    by (simp add: int16_333 Modf_333)
  from drawFujiExposureBiasCompensation_places_marker [OF m, of 6 white_widget] m
  show ?thesis
    by (simp add: thirdStop_333 trunc_def white_widget_def)
qed

text \<open>
  The value 3333 has the position 19, which is not an index of the ruler: the write of the
  marker panics and nothing is placed.
\<close>

theorem drawFujiExposureBiasCompensation_3333_panics:
  "snd (snd (markerPosition 3333)) = 19 \<and>
   drawFujiExposureBiasCompensation 6 white_widget 3333 = Inl (IndexOutOfRange 19 19)"
  by code_simp

text \<open>
  C6. For the value 0 the position is exactly 9. After the sign pair the whole ruler, with
  the placeholder rune at index 9, is drawn in grey (100, 100, 100); then the rune of the zero
  position and the marker are drawn at index 9 in white (255, 255, 255), each from the origin.
\<close>

theorem drawFujiExposureBiasCompensation_zero:
  "markerPosition 0 = (0, 0, 9) \<and>
   (\<exists>w'. drawFujiExposureBiasCompensation gw w 0 = Inr w' \<and>
      drawn w' = drawn w @
        [((64 * fst (origin w) - gw * 3 * 64, 64 * snd (origin w)), defaultColour w, ''+-''),
         ((64 * fst (origin w), 64 * snd (origin w)), (100, 100, 100),
          ''6..5..4..'' @ [CHR 0x22] @ ''..1..2..3''),
         ((64 * fst (origin w), 64 * snd (origin w)), (255, 255, 255),
          ''         '' @ [CHR 0x22] @ ''         ''),
         ((64 * fst (origin w), 64 * snd (origin w)), (255, 255, 255),
          ''         !         '')])"
proof -
  have z: "int16 0 = 1000 * 0" by (simp add: int16_def)
  have mp: "markerPosition 0 = (0, 0, 9)"
    using markerPosition_multiple [OF z] by simp
  from draw_on_ruler [OF mp, of gw w] mp show ?thesis
    by (simp add: getBias_def grey_def white_def numeral_eq_Suc)
qed

text \<open>
  C7, as the code has it. For every value that is a multiple of 1000, \<open>1000 k\<close>, the
  position that the function computes is \<open>9 + 3 k\<close>, without a third-stop offset. When
  \<open>\<bar>k\<bar> \<le> 3\<close> the position is an index of the 19-rune ruler: the function returns, the ruler
  it has drawn has the placeholder rune at the position and the last string it has drawn is
  the marker with \<^verbatim>\<open>'!'\<close> at the position. Of the values from 3000 on these are 3000 and
  -3000, with the positions 18 and 0.
\<close>

theorem drawFujiExposureBiasCompensation_whole_stops:
  assumes "int16 val = 1000 * k"
  shows "markerPosition val = (of_int k, 0, 9 + 3 * k) \<and> fStop 0 = 0 \<and>
     (\<bar>k\<bar> \<le> 3 \<longrightarrow>
        (\<exists>w'. drawFujiExposureBiasCompensation gw w val = Inr w' \<and>
           last (drawn w') =
             ((64 * fst (origin w), 64 * snd (origin w)),
              (if k = 0 then white else yellow),
              (replicate 19 (CHR '' ''))[nat (9 + 3 * k) := CHR ''!''])))"
proof -
  note mp = markerPosition_multiple [OF assms]
  have "\<exists>w'. drawFujiExposureBiasCompensation gw w val = Inr w' \<and>
           last (drawn w') =
             ((64 * fst (origin w), 64 * snd (origin w)),
              (if k = 0 then white else yellow),
              (replicate 19 (CHR '' ''))[nat (9 + 3 * k) := CHR ''!''])"
    if "\<bar>k\<bar> \<le> 3"
  proof -
    from that have "0 \<le> 9 + 3 * k" "9 + 3 * k < 19" by simp_all
    from draw_on_ruler_last [OF mp this, of gw w] show ?thesis by simp
  qed
  with mp show ?thesis by (simp add: fStop_def)
qed

theorem drawFujiExposureBiasCompensation_whole_stops_witness:
  "int16 3000 = 1000 * 3 \<and> int16 (- 3000) = 1000 * (- 3) \<and>
   (\<exists>w'. drawFujiExposureBiasCompensation 6 white_widget 3000 = Inr w' \<and>
      last (drawn w') = ((6400, 3200), yellow, ''                  !'')) \<and>
   (\<exists>w'. drawFujiExposureBiasCompensation 6 white_widget (- 3000) = Inr w' \<and>
      last (drawn w') = ((6400, 3200), yellow, ''!                  ''))"
proof -
  have a: "int16 3000 = 1000 * 3" and b: "int16 (- 3000) = 1000 * (- 3)"
    by (simp_all add: int16_def)
  from drawFujiExposureBiasCompensation_whole_stops [OF a, of 6 white_widget]
    drawFujiExposureBiasCompensation_whole_stops [OF b, of 6 white_widget] a b
  show ?thesis
    by (simp add: white_widget_def numeral_eq_Suc)
qed

text \<open>
  The value 4000 has the position 21, which is not an index of the ruler: the write of the
  placeholder rune panics and the draw does not complete.
\<close>

theorem drawFujiExposureBiasCompensation_4000_panics:
  "int16 4000 = 1000 * 4 \<and> snd (snd (markerPosition 4000)) = 9 + 3 * 4 \<and>
   drawFujiExposureBiasCompensation 6 white_widget 4000 = Inl (IndexOutOfRange 21 19)"
  by code_simp

subsection \<open>The exit status\<close>

text \<open>
  C9. When the calls of \<open>main\<close> return, the process exits with 1 when it is invoked without
  arguments, with 0 on the help path and on the version path with arguments present, with 4
  when the construction of the client fails, with 5 when \<^verbatim>\<open>Dial\<close> fails, and with 0 when
  nothing fails.
\<close>

theorem main_exit_status:
  assumes "os_Args E \<noteq> []"
    and "usage E = Returns" and "initFlags E = Returns"
    and "file_var E \<noteq> [] \<longrightarrow> loadConfig E = Returns"
    and "server E \<longrightarrow> launchServer E = Returns"
  shows "main E =
     Exit (if length (os_Args E) < 2 then 1
           else if help_var E \<or> version E then 0
           else if NewClient E \<noteq> None then 4
           else if Dial E \<noteq> None then 5
           else 0)"
  using assms
  by (auto simp: main_def after_def Let_def split: option.splits)

theorem main_exit_status_witness:
  "main (plain_cli\<lparr>os_Args := [''ptpip'']\<rparr>) = Exit 1 \<and>
   main (plain_cli\<lparr>help_var := True\<rparr>) = Exit 0 \<and>
   main (plain_cli\<lparr>version := True\<rparr>) = Exit 0 \<and>
   main (plain_cli\<lparr>NewClient := Some ''invalid GUID''\<rparr>) = Exit 4 \<and>
   main (plain_cli\<lparr>Dial := Some ''connection refused''\<rparr>) = Exit 5 \<and>
   main (plain_cli\<lparr>server := True\<rparr>) = Exit 0 \<and>
   main plain_cli = Exit 0"
  using main_exit_status [of "plain_cli\<lparr>os_Args := [''ptpip'']\<rparr>"]
    main_exit_status [of "plain_cli\<lparr>help_var := True\<rparr>"]
    main_exit_status [of "plain_cli\<lparr>version := True\<rparr>"]
    main_exit_status [of "plain_cli\<lparr>NewClient := Some ''invalid GUID''\<rparr>"]
    main_exit_status [of "plain_cli\<lparr>Dial := Some ''connection refused''\<rparr>"]
    main_exit_status [of "plain_cli\<lparr>server := True\<rparr>"]
    main_exit_status [of plain_cli]
  by (simp add: plain_cli_def)

end
